theory Spec2Isabelle
  imports Complex_Main
begin

section \<open>Values of the program\<close>

text \<open>
  The program (\<^verbatim>\<open>app.py\<close>) works on the tree that \<^verbatim>\<open>json.load\<close> returns: dicts, lists,
  strings, numbers, booleans and \<^verbatim>\<open>None\<close>, accessed by duck typing. The model keeps that
  tree and makes every exception of a mistyped access a value.

  Numbers. A finite number is modelled by its exact rational value; the precision and the
  range of IEEE doubles (rounding, overflow of a finite sum, the OverflowError of converting
  a huge int) are not modelled. The special values \<^verbatim>\<open>inf\<close>, \<^verbatim>\<open>-inf\<close> and \<^verbatim>\<open>nan\<close>, which
  \<^verbatim>\<open>get_bounds\<close> starts from and which \<^verbatim>\<open>json.load\<close> accepts, are modelled with their IEEE
  arithmetic and comparisons.

  Strings are byte lists holding the UTF-8 encoding of the Python string.
\<close>

datatype error = KeyError | AttributeError | TypeError | ValueError

datatype fl = Fin rat | PInf | NInf | NaN

datatype json =
    JNull
  | JBool bool
  | JInt int
  | JFloat fl
  | JStr string
  | JArr "json list"
  | JObj "(string \<times> json) list"

subsection \<open>Float arithmetic on the special values\<close>

text \<open>\<^verbatim>\<open>a < b\<close> on floats: every comparison with \<^verbatim>\<open>nan\<close> is false.\<close>

fun fl_lt :: "fl \<Rightarrow> fl \<Rightarrow> bool" where
  "fl_lt NaN _ = False"
| "fl_lt _ NaN = False"
| "fl_lt (Fin a) (Fin b) = (a < b)"
| "fl_lt (Fin a) PInf = True"
| "fl_lt (Fin a) NInf = False"
| "fl_lt PInf _ = False"
| "fl_lt NInf NInf = False"
| "fl_lt NInf _ = True"

text \<open>\<^verbatim>\<open>a + b\<close>: \<^verbatim>\<open>inf + -inf\<close> is \<^verbatim>\<open>nan\<close>, and \<^verbatim>\<open>nan\<close> propagates.\<close>

fun fl_add :: "fl \<Rightarrow> fl \<Rightarrow> fl" where
  "fl_add NaN _ = NaN"
| "fl_add _ NaN = NaN"
| "fl_add (Fin a) (Fin b) = Fin (a + b)"
| "fl_add (Fin a) PInf = PInf"
| "fl_add (Fin a) NInf = NInf"
| "fl_add PInf NInf = NaN"
| "fl_add PInf _ = PInf"
| "fl_add NInf PInf = NaN"
| "fl_add NInf _ = NInf"

text \<open>\<^verbatim>\<open>a / 2\<close>.\<close>

fun fl_half :: "fl \<Rightarrow> fl" where
  "fl_half (Fin a) = Fin (a / 2)"
| "fl_half PInf = PInf"
| "fl_half NInf = NInf"
| "fl_half NaN = NaN"

subsection \<open>Duck-typed accesses\<close>

definition ebind :: "error + 'a \<Rightarrow> ('a \<Rightarrow> error + 'b) \<Rightarrow> error + 'b" where
  "ebind m f = (case m of Inl e \<Rightarrow> Inl e | Inr x \<Rightarrow> f x)"

text \<open>\<^verbatim>\<open>obj[key]\<close> with a string key: only a dict answers; a missing key is a KeyError.\<close>

fun py_getitem :: "json \<Rightarrow> string \<Rightarrow> error + json" where
  "py_getitem (JObj kvs) k = (case map_of kvs k of None \<Rightarrow> Inl KeyError | Some v \<Rightarrow> Inr v)"
| "py_getitem _ k = Inl TypeError"

text \<open>\<^verbatim>\<open>obj.get(key, default)\<close>: only a dict has the method.\<close>

fun py_get :: "json \<Rightarrow> string \<Rightarrow> json \<Rightarrow> error + json" where
  "py_get (JObj kvs) k d = (case map_of kvs k of None \<Rightarrow> Inr d | Some v \<Rightarrow> Inr v)"
| "py_get _ k d = Inl AttributeError"

text \<open>
  A Python string iterates over its code points: in the UTF-8 bytes, a lead byte with the
  continuation bytes (\<^verbatim>\<open>10xxxxxx\<close>) that follow it.
\<close>

definition is_cont :: "char \<Rightarrow> bool" where
  "is_cont c = ((128::nat) \<le> of_char c \<and> of_char c < (192::nat))"

function utf8_chars :: "string \<Rightarrow> string list" where
  "utf8_chars [] = []"
| "utf8_chars (c # cs) = (c # takeWhile is_cont cs) # utf8_chars (dropWhile is_cont cs)"
  by pat_completeness auto
termination
  by (relation "measure length") (auto simp: length_dropWhile_le less_Suc_eq_le)

text \<open>\<^verbatim>\<open>iter(obj)\<close>: a list gives its elements, a string its characters, a dict its keys.\<close>

fun py_iter :: "json \<Rightarrow> error + json list" where
  "py_iter (JArr xs) = Inr xs"
| "py_iter (JStr s) = Inr (map JStr (utf8_chars s))"
| "py_iter (JObj kvs) = Inr (map (\<lambda>kv. JStr (fst kv)) kvs)"
| "py_iter _ = Inl TypeError"

text \<open>\<^verbatim>\<open>lon, lat = pt\<close>: the target must yield exactly two values.\<close>

definition unpack2 :: "json \<Rightarrow> error + (json \<times> json)" where
  "unpack2 pt = ebind (py_iter pt)
     (\<lambda>xs. case xs of [a, b] \<Rightarrow> Inr (a, b) | _ \<Rightarrow> Inl ValueError)"

text \<open>The numeric value of an operand of \<^verbatim>\<open><\<close> and \<^verbatim>\<open>+\<close>: ints, floats and booleans.\<close>

fun num_of :: "json \<Rightarrow> fl option" where
  "num_of (JInt i) = Some (Fin (of_int i))"
| "num_of (JFloat x) = Some x"
| "num_of (JBool b) = Some (Fin (if b then 1 else 0))"
| "num_of _ = None"

text \<open>
  \<^verbatim>\<open>min(a, v)\<close> keeps \<^verbatim>\<open>a\<close> unless \<^verbatim>\<open>v < a\<close>; \<^verbatim>\<open>max(a, v)\<close> keeps \<^verbatim>\<open>a\<close> unless \<^verbatim>\<open>v > a\<close>.
  The first argument is the running bound, a number; comparing it with anything but a
  number is a TypeError. The result is given by its numeric value.
\<close>

definition py_min :: "fl \<Rightarrow> json \<Rightarrow> error + fl" where
  "py_min a v = (case num_of v of None \<Rightarrow> Inl TypeError
                 | Some x \<Rightarrow> Inr (if fl_lt x a then x else a))"

definition py_max :: "fl \<Rightarrow> json \<Rightarrow> error + fl" where
  "py_max a v = (case num_of v of None \<Rightarrow> Inl TypeError
                 | Some x \<Rightarrow> Inr (if fl_lt a x then x else a))"

section \<open>get_bounds\<close>

record bnds =
  minlat :: fl
  maxlat :: fl
  minlon :: fl
  maxlon :: fl

definition init_bnds :: bnds where
  "init_bnds = \<lparr>minlat = PInf, maxlat = NInf, minlon = PInf, maxlon = NInf\<rparr>"

text \<open>The body of \<^verbatim>\<open>for lon, lat in coords\<close>.\<close>

definition update_bnds :: "bnds \<Rightarrow> json \<Rightarrow> error + bnds" where
  "update_bnds st pt =
     ebind (unpack2 pt) (\<lambda>(lon, lat).
     ebind (py_min (minlat st) lat) (\<lambda>mnlat.
     ebind (py_max (maxlat st) lat) (\<lambda>mxlat.
     ebind (py_min (minlon st) lon) (\<lambda>mnlon.
     ebind (py_max (maxlon st) lon) (\<lambda>mxlon.
     Inr \<lparr>minlat = mnlat, maxlat = mxlat, minlon = mnlon, maxlon = mxlon\<rparr>)))))"

fun scan_points :: "json list \<Rightarrow> bnds \<Rightarrow> error + bnds" where
  "scan_points [] st = Inr st"
| "scan_points (pt # pts) st = ebind (update_bnds st pt) (scan_points pts)"

text \<open>\<^verbatim>\<open>[pt for line in lines for pt in line]\<close>, built in full before the points are read.\<close>

fun flatten_lines :: "json list \<Rightarrow> error + json list" where
  "flatten_lines [] = Inr []"
| "flatten_lines (line # lines) =
     ebind (py_iter line) (\<lambda>pts.
     ebind (flatten_lines lines) (\<lambda>rest. Inr (pts @ rest)))"

text \<open>
  The geometry dispatch of one feature: the points to scan, or \<open>None\<close> for \<^verbatim>\<open>continue\<close>.
\<close>

definition feature_coords :: "json \<Rightarrow> error + json list option" where
  "feature_coords feat =
     ebind (py_get feat ''geometry'' (JObj [])) (\<lambda>geom.
     ebind (py_get geom ''type'' JNull) (\<lambda>ty.
       if ty = JStr ''LineString'' then
         ebind (py_get geom ''coordinates'' (JArr [])) (\<lambda>coords.
         ebind (py_iter coords) (\<lambda>pts. Inr (Some pts)))
       else if ty = JStr ''MultiLineString'' then
         ebind (py_get geom ''coordinates'' (JArr [])) (\<lambda>coords.
         ebind (py_iter coords) (\<lambda>lines.
         ebind (flatten_lines lines) (\<lambda>pts. Inr (Some pts))))
       else Inr None))"

fun scan_features :: "json list \<Rightarrow> bnds \<Rightarrow> error + bnds" where
  "scan_features [] st = Inr st"
| "scan_features (feat # feats) st =
     ebind (feature_coords feat) (\<lambda>c.
       case c of
         None \<Rightarrow> scan_features feats st
       | Some pts \<Rightarrow> ebind (scan_points pts st) (scan_features feats))"

type_synonym latlon = "fl \<times> fl"

definition center_of :: "bnds \<Rightarrow> latlon" where
  "center_of st = (fl_half (fl_add (minlat st) (maxlat st)),
                   fl_half (fl_add (minlon st) (maxlon st)))"

definition bounds_of :: "bnds \<Rightarrow> latlon \<times> latlon" where
  "bounds_of st = ((minlat st, minlon st), (maxlat st, maxlon st))"

definition get_bounds :: "json \<Rightarrow> error + (latlon \<times> (latlon \<times> latlon))" where
  "get_bounds geojson =
     ebind (py_getitem geojson ''features'') (\<lambda>fs.
     ebind (py_iter fs) (\<lambda>feats.
     ebind (scan_features feats init_bnds) (\<lambda>st.
     Inr (center_of st, bounds_of st))))"

section \<open>build_map\<close>

subsection \<open>Settings and mode resolution\<close>

definition PALETTE :: "(string \<times> string) list" where
  "PALETTE =
     [(''Very Low'', ''#7fc97f''),
      (''Low'', ''#beed90''),
      (''Moderate'', ''#ffff99''),
      (''Moderately High'', ''#fdc86e''),
      (''High'', ''#fdae61''),
      (''Very High'', ''#d7191c'')]"

record fields =
  bucket_field :: string
  p_field :: string
  lam_field :: string
  layer_name :: string

text \<open>The \<^verbatim>\<open>if mode == "Poisson Regression": ... else: ...\<close> at the head of \<^verbatim>\<open>build_map\<close>.\<close>

definition mode_fields :: "string \<Rightarrow> fields" where
  "mode_fields mode =
     (if mode = ''Poisson Regression'' then
        \<lparr>bucket_field = ''risk_bucket'', p_field = ''p_ge1'',
         lam_field = ''lambda_hat'', layer_name = ''Risk (Poisson)''\<rparr>
      else
        \<lparr>bucket_field = ''risk_bucket_gbt'', p_field = ''p_ge1_gbt'',
         lam_field = ''lambda_hat_gbt'', layer_name = ''Risk (GBT)''\<rparr>)"

subsection \<open>style_fn\<close>

text \<open>
  \<^verbatim>\<open>PALETTE.get(bucket, default)\<close>: the key is hashed first, and a list or a dict is
  unhashable; a key that is not a string equals no palette key.
\<close>

fun palette_get :: "json \<Rightarrow> string \<Rightarrow> error + string" where
  "palette_get (JStr s) d = (case map_of PALETTE s of None \<Rightarrow> Inr d | Some c \<Rightarrow> Inr c)"
| "palette_get (JArr xs) d = Inl TypeError"
| "palette_get (JObj kvs) d = Inl TypeError"
| "palette_get _ d = Inr d"

record style =
  color :: string
  weight :: nat
  opacity :: rat

definition style_fn :: "fields \<Rightarrow> json \<Rightarrow> error + style" where
  "style_fn flds feat =
     ebind (py_get feat ''properties'' (JObj [])) (\<lambda>props.
     ebind (py_get props (bucket_field flds) (JStr ''Moderate'')) (\<lambda>bucket.
     ebind (palette_get bucket ''#3186cc'') (\<lambda>c.
     Inr \<lparr>color = c, weight = 3, opacity = 9 / 10\<rparr>)))"

subsection \<open>Formatting and parsing of values\<close>

definition digit_char :: "nat \<Rightarrow> char" where
  "digit_char d = char_of (48 + d)"

fun nat_str :: "nat \<Rightarrow> string" where
  "nat_str n = (if n < 10 then [digit_char n] else nat_str (n div 10) @ [digit_char (n mod 10)])"

definition int_str :: "int \<Rightarrow> string" where
  "int_str i = (if i < 0 then CHR ''-'' # nat_str (nat (- i)) else nat_str (nat i))"

text \<open>
  \<^verbatim>\<open>f"{v}"\<close>, that is \<^verbatim>\<open>str(v)\<close>. The text of a float and of a list or dict (Python's
  shortest round-trip digits, and the \<^verbatim>\<open>repr\<close> of the elements) is the parameter \<open>repr\<close>.
\<close>

fun py_str :: "(json \<Rightarrow> string) \<Rightarrow> json \<Rightarrow> string" where
  "py_str repr JNull = ''None''"
| "py_str repr (JBool b) = (if b then ''True'' else ''False'')"
| "py_str repr (JInt i) = int_str i"
| "py_str repr (JStr s) = s"
| "py_str repr v = repr v"

definition is_digit :: "char \<Rightarrow> bool" where
  "is_digit c = ((48::nat) \<le> of_char c \<and> of_char c \<le> (57::nat))"

definition is_space :: "char \<Rightarrow> bool" where
  "is_space c = ((9::nat) \<le> of_char c \<and> of_char c \<le> (13::nat) \<or> of_char c = (32::nat))"

definition lower :: "char \<Rightarrow> char" where
  "lower c = (if (65::nat) \<le> of_char c \<and> of_char c \<le> (90::nat)
              then char_of (of_char c + (32::nat)) else c)"

text \<open>The value of a digit string, most significant digit first.\<close>

definition digits_val :: "string \<Rightarrow> nat" where
  "digits_val ds = foldl (\<lambda>n c. 10 * n + (of_char c - 48)) 0 ds"

text \<open>
  Underscores of a numeric literal: one is allowed only between two digits, and is dropped.
  \<open>prev\<close> is the character before (NUL at the start).
\<close>

fun drop_underscores :: "char \<Rightarrow> string \<Rightarrow> string option" where
  "drop_underscores prev [] = (if prev = CHR ''_'' then None else Some [])"
| "drop_underscores prev (c # cs) =
     (if c = CHR ''_'' then
        (if is_digit prev then drop_underscores c cs else None)
      else if prev = CHR ''_'' \<and> \<not> is_digit c then None
      else map_option ((#) c) (drop_underscores c cs))"

definition split_sign :: "string \<Rightarrow> bool \<times> string" where
  "split_sign s =
     (case s of
        c # cs \<Rightarrow> if c = CHR ''-'' then (True, cs) else if c = CHR ''+'' then (False, cs)
                  else (False, s)
      | [] \<Rightarrow> (False, s))"

definition scale10 :: "rat \<Rightarrow> int \<Rightarrow> rat" where
  "scale10 q e = (if 0 \<le> e then q * 10 ^ nat e else q / 10 ^ nat (- e))"

text \<open>
  The literal between the stripped spaces: a sign, then \<^verbatim>\<open>inf\<close>, \<^verbatim>\<open>infinity\<close> or \<^verbatim>\<open>nan\<close>
  in any case, or digits with at most one point and at least one digit, and an optional
  exponent with at least one digit.
\<close>

definition parse_literal :: "string \<Rightarrow> fl option" where
  "parse_literal s =
     (let (neg, r) = split_sign s; lr = map lower r in
      if lr = ''inf'' \<or> lr = ''infinity'' then Some (if neg then NInf else PInf)
      else if lr = ''nan'' then Some NaN
      else
        let ip = takeWhile is_digit r; r1 = dropWhile is_digit r;
            (fp, r2) = (case r1 of
                          c # t \<Rightarrow> if c = CHR ''.''
                                    then (takeWhile is_digit t, dropWhile is_digit t)
                                    else ([], r1)
                        | [] \<Rightarrow> ([], r1));
            m = (if neg then - 1 else 1) * of_nat (digits_val (ip @ fp))
        in
          if ip = [] \<and> fp = [] then None
          else
            (case r2 of
               [] \<Rightarrow> Some (Fin (scale10 m (- int (length fp))))
             | c # t \<Rightarrow>
                 if lower c = CHR ''e'' then
                   (let (eneg, ds) = split_sign t in
                    if ds \<noteq> [] \<and> list_all is_digit ds then
                      Some (Fin (scale10 m
                        ((if eneg then - int (digits_val ds) else int (digits_val ds))
                          - int (length fp))))
                    else None)
                 else None))"

text \<open>
  \<^verbatim>\<open>float(s)\<close> on a string of ASCII characters. A string with a non-ASCII digit or space,
  which \<^verbatim>\<open>float\<close> would also read, does not parse here.
\<close>

definition float_of_str :: "string \<Rightarrow> fl option" where
  "float_of_str s =
     (if CHR 0x00 \<in> set s then None
      else
        case (if CHR ''_'' \<in> set s then drop_underscores (CHR 0x00) s else Some s) of
          None \<Rightarrow> None
        | Some t \<Rightarrow>
            (let body = rev (dropWhile is_space (rev (dropWhile is_space t)))
             in if body = [] then None else parse_literal body))"

text \<open>\<^verbatim>\<open>float(v)\<close>: ValueError for a string that is no literal, TypeError for what is no number.\<close>

fun py_float :: "json \<Rightarrow> error + fl" where
  "py_float (JFloat x) = Inr x"
| "py_float (JInt i) = Inr (Fin (of_int i))"
| "py_float (JBool b) = Inr (Fin (if b then 1 else 0))"
| "py_float (JStr s) = (case float_of_str s of None \<Rightarrow> Inl ValueError | Some x \<Rightarrow> Inr x)"
| "py_float _ = Inl TypeError"

text \<open>\<^verbatim>\<open>round(x, 4)\<close>: to the nearest multiple of 1/10000, a tie to the even one.\<close>

definition round_half_even :: "rat \<Rightarrow> int" where
  "round_half_even x =
     (let f = \<lfloor>x\<rfloor>; d = x - of_int f in
      if d < 1 / 2 then f else if 1 / 2 < d then f + 1
      else if even f then f else f + 1)"

fun py_round4 :: "fl \<Rightarrow> fl" where
  "py_round4 (Fin q) = Fin (of_int (round_half_even (q * 10000)) / 10000)"
| "py_round4 x = x"

text \<open>
  \<^verbatim>\<open>if x is not None: try: x = round(float(x), 4) except: pass\<close>
\<close>

definition round_or_raw :: "json \<Rightarrow> json" where
  "round_or_raw v =
     (if v = JNull then JNull
      else case py_float v of Inl e \<Rightarrow> v | Inr x \<Rightarrow> JFloat (py_round4 x))"

subsection \<open>tooltip_html\<close>

fun starts_with :: "string \<Rightarrow> string \<Rightarrow> bool" where
  "starts_with [] s = True"
| "starts_with (p # ps) [] = False"
| "starts_with (p # ps) (c # cs) = (p = c \<and> starts_with ps cs)"

fun is_substr :: "string \<Rightarrow> string \<Rightarrow> bool" where
  "is_substr k [] = (k = [])"
| "is_substr k (c # cs) = (starts_with k (c # cs) \<or> is_substr k cs)"

text \<open>
  \<^verbatim>\<open>k in obj\<close> for a string \<open>k\<close>: a key of a dict, an element of a list, a substring of a
  string; anything else is not a container.
\<close>

fun py_contains :: "string \<Rightarrow> json \<Rightarrow> error + bool" where
  "py_contains k (JObj kvs) = Inr (map_of kvs k \<noteq> None)"
| "py_contains k (JArr xs) = Inr (JStr k \<in> set xs)"
| "py_contains k (JStr s) = Inr (is_substr k s)"
| "py_contains k _ = Inl TypeError"

definition show_keys :: "string list" where
  "show_keys = [''id_segmen'', ''Jenis_pipa'', ''Diameter'', ''Length'', ''DMA_norm'']"

text \<open>\<^verbatim>\<open>[f"{k}: {props[k]}" for k in show if k in props]\<close>\<close>

fun base_lines :: "(json \<Rightarrow> string) \<Rightarrow> json \<Rightarrow> string list \<Rightarrow> error + string list" where
  "base_lines repr props [] = Inr []"
| "base_lines repr props (k # ks) =
     ebind (py_contains k props) (\<lambda>present.
       if present then
         ebind (py_getitem props k) (\<lambda>v.
         ebind (base_lines repr props ks) (\<lambda>rest.
         Inr ((k @ '': '' @ py_str repr v) # rest)))
       else base_lines repr props ks)"

text \<open>The labels of the last three lines, as UTF-8 bytes: the first is the Greek letter
  lambda (CE BB) followed by \<^verbatim>\<open>_hat: \<close>, the second holds the sign \<^verbatim>\<open>\<ge>\<close> (E2 89 A5).\<close>

definition lam_label :: string where
  "lam_label = [CHR 0xCE, CHR 0xBB] @ ''_hat: ''"

definition p_label :: string where
  "p_label = ''P('' @ [CHR 0xE2, CHR 0x89, CHR 0xA5] @ ''1): ''"

definition risk_label :: string where
  "risk_label = ''Risk: ''"

definition tooltip_lines :: "(json \<Rightarrow> string) \<Rightarrow> fields \<Rightarrow> json \<Rightarrow> error + string list" where
  "tooltip_lines repr flds props =
     ebind (base_lines repr props show_keys) (\<lambda>lines.
     ebind (py_get props (lam_field flds) JNull) (\<lambda>lam.
     ebind (py_get props (p_field flds) JNull) (\<lambda>p1.
     ebind (py_get props (bucket_field flds) (JStr ''-'')) (\<lambda>bucket.
     Inr (lines @
          [lam_label @ py_str repr (round_or_raw lam),
           p_label @ py_str repr (round_or_raw p1),
           risk_label @ py_str repr bucket])))))"

text \<open>\<^verbatim>\<open>sep.join(lines)\<close>\<close>

fun join :: "string \<Rightarrow> string list \<Rightarrow> string" where
  "join sep [] = []"
| "join sep [x] = x"
| "join sep (x # y # ys) = x @ sep @ join sep (y # ys)"

definition tooltip_html :: "(json \<Rightarrow> string) \<Rightarrow> fields \<Rightarrow> json \<Rightarrow> error + string" where
  "tooltip_html repr flds props =
     ebind (tooltip_lines repr flds props) (\<lambda>lines. Inr (join ''<br>'' lines))"

subsection \<open>The tooltip loop\<close>

text \<open>\<^verbatim>\<open>d[k] = v\<close> on the items of a dict: an existing key keeps its place, a new one is
  added at the end.\<close>

fun dict_set :: "string \<Rightarrow> json \<Rightarrow> (string \<times> json) list \<Rightarrow> (string \<times> json) list" where
  "dict_set k v [] = [(k, v)]"
| "dict_set k v (kv # kvs) = (if fst kv = k then (k, v) # kvs else kv # dict_set k v kvs)"

fun py_setitem :: "json \<Rightarrow> string \<Rightarrow> json \<Rightarrow> error + json" where
  "py_setitem (JObj kvs) k v = Inr (JObj (dict_set k v kvs))"
| "py_setitem _ k v = Inl TypeError"

text \<open>\<^verbatim>\<open>obj.setdefault(k, d)\<close>: the object after the call, and the value returned.\<close>

fun py_setdefault :: "json \<Rightarrow> string \<Rightarrow> json \<Rightarrow> error + (json \<times> json)" where
  "py_setdefault (JObj kvs) k d =
     (case map_of kvs k of
        None \<Rightarrow> Inr (JObj (kvs @ [(k, d)]), d)
      | Some v \<Rightarrow> Inr (JObj kvs, v))"
| "py_setdefault _ k d = Inl AttributeError"

text \<open>
  The body of \<^verbatim>\<open>for feat in gj["features"]\<close>. \<^verbatim>\<open>props\<close> is the object the feature holds
  under \<^verbatim>\<open>properties\<close>, so the write to \<^verbatim>\<open>props["_tooltip"]\<close> is a write into the feature:
  the model stores the updated mapping back. A step that raises has changed nothing
  (the only write before the last statement is the \<^verbatim>\<open>setdefault\<close> of an empty dict, on
  which \<^verbatim>\<open>tooltip_html\<close> does not raise).
\<close>

definition inject_tooltip :: "(json \<Rightarrow> string) \<Rightarrow> fields \<Rightarrow> json \<Rightarrow> error + json" where
  "inject_tooltip repr flds feat =
     ebind (py_setdefault feat ''properties'' (JObj [])) (\<lambda>(feat1, props).
     ebind (tooltip_html repr flds props) (\<lambda>t.
     ebind (py_setitem props ''_tooltip'' (JStr t)) (\<lambda>props'.
     py_setitem feat1 ''properties'' props')))"


subsection \<open>build_map\<close>




section \<open>The specification's reading of the data\<close>

text \<open>
  The specification speaks of features with a geometry that is a polyline or a
  multi-polyline of (longitude, latitude) pairs, and a mapping of properties. The
  definitions below read that structure off the JSON tree directly; they are what the
  theorems compare the program with.
\<close>

fun elems :: "json \<Rightarrow> json list" where
  "elems (JArr xs) = xs"
| "elems _ = []"

fun is_arr :: "json \<Rightarrow> bool" where
  "is_arr (JArr xs) = True"
| "is_arr _ = False"

fun members :: "json \<Rightarrow> (string \<times> json) list" where
  "members (JObj kvs) = kvs"
| "members _ = []"

text \<open>The coordinate points of a feature: those of a LineString, those of all lines of a
  MultiLineString, none for any other geometry.\<close>

definition supported_points :: "json \<Rightarrow> json list" where
  "supported_points feat =
     (case map_of (members feat) ''geometry'' of
        Some (JObj g) \<Rightarrow>
          (if map_of g ''type'' = Some (JStr ''LineString'') then
             (case map_of g ''coordinates'' of Some c \<Rightarrow> elems c | None \<Rightarrow> [])
           else if map_of g ''type'' = Some (JStr ''MultiLineString'') then
             (case map_of g ''coordinates'' of
                Some c \<Rightarrow> concat (map elems (elems c)) | None \<Rightarrow> [])
           else [])
      | _ \<Rightarrow> [])"

text \<open>A geometry object is structured when the coordinates of a LineString, if there are
  any, are an array, and those of a MultiLineString an array of arrays.\<close>

definition wf_geometry :: "(string \<times> json) list \<Rightarrow> bool" where
  "wf_geometry g =
     (if map_of g ''type'' = Some (JStr ''LineString'') then
        (case map_of g ''coordinates'' of Some c \<Rightarrow> is_arr c | None \<Rightarrow> True)
      else if map_of g ''type'' = Some (JStr ''MultiLineString'') then
        (case map_of g ''coordinates'' of
           Some c \<Rightarrow> is_arr c \<and> list_all is_arr (elems c) | None \<Rightarrow> True)
      else True)"

text \<open>A feature is structured when it is an object whose geometry member is absent or a
  structured geometry object.\<close>

definition wf_feature :: "json \<Rightarrow> bool" where
  "wf_feature feat =
     (case feat of
        JObj kvs \<Rightarrow>
          (case map_of kvs ''geometry'' of
             None \<Rightarrow> True
           | Some (JObj g) \<Rightarrow> wf_geometry g
           | Some _ \<Rightarrow> False)
      | _ \<Rightarrow> False)"

text \<open>A feature that the geometry dispatch passes over: an object whose geometry member is
  absent, or an object whose type is neither LineString nor MultiLineString.\<close>

definition unsupported_feature :: "json \<Rightarrow> bool" where
  "unsupported_feature feat =
     (case feat of
        JObj kvs \<Rightarrow>
          (case map_of kvs ''geometry'' of
             None \<Rightarrow> True
           | Some (JObj g) \<Rightarrow> map_of g ''type'' \<noteq> Some (JStr ''LineString'')
                             \<and> map_of g ''type'' \<noteq> Some (JStr ''MultiLineString'')
           | Some _ \<Rightarrow> False)
      | _ \<Rightarrow> False)"











definition tooltip_of :: "json \<Rightarrow> json option" where
  "tooltip_of feat =
     (case map_of (members feat) ''properties'' of
        Some (JObj ps) \<Rightarrow> map_of ps ''_tooltip''
      | _ \<Rightarrow> None)"

text \<open>The properties of a feature as the styling and the tooltip read them: the mapping
  under \<^verbatim>\<open>properties\<close>, empty when the member is absent.\<close>

definition properties_of :: "json \<Rightarrow> (string \<times> json) list option" where
  "properties_of feat =
     (case feat of
        JObj kvs \<Rightarrow>
          (case map_of kvs ''properties'' of
             None \<Rightarrow> Some []
           | Some (JObj ps) \<Rightarrow> Some ps
           | Some _ \<Rightarrow> None)
      | _ \<Rightarrow> None)"

text \<open>The line of a base attribute, following the specification: one line
  \<^verbatim>\<open><name>: <value>\<close> when the attribute is present, no line when it is absent.\<close>

definition attr_line :: "(json \<Rightarrow> string) \<Rightarrow> (string \<times> json) list \<Rightarrow> string \<Rightarrow> string list" where
  "attr_line repr ps k =
     (case map_of ps k of None \<Rightarrow> [] | Some v \<Rightarrow> [k @ '': '' @ py_str repr v])"

text \<open>The value shown for the rate and for the probability, following the specification:
  the missing marker when the field is absent; the field parsed as a float and rounded to
  4 decimals when it parses; the raw value otherwise.\<close>

definition shown :: "(json \<Rightarrow> string) \<Rightarrow> json option \<Rightarrow> string" where
  "shown repr field =
     (case field of
        None \<Rightarrow> ''None''
      | Some v \<Rightarrow>
          (case py_float v of
             Inr x \<Rightarrow> repr (JFloat (py_round4 x))
           | Inl e \<Rightarrow> py_str repr v))"

section \<open>Sample inputs\<close>

definition line_props :: "(string \<times> json) list" where
  "line_props =
     [(''id_segmen'', JInt 12), (''Jenis_pipa'', JStr ''PVC''),
      (''lambda_hat'', JFloat (Fin 0.123456789)), (''p_ge1'', JStr ''N/A''),
      (''risk_bucket'', JStr ''High'')]"

definition line_geometry :: json where
  "line_geometry =
     JObj [(''type'', JStr ''LineString''),
           (''coordinates'', JArr
              [JArr [JFloat (Fin 106.8), JFloat (Fin (- 6.2))],
               JArr [JInt 107, JInt (- 6)]])]"

definition line_feature :: json where
  "line_feature =
     JObj [(''type'', JStr ''Feature''), (''geometry'', line_geometry),
           (''properties'', JObj line_props)]"

text \<open>The tooltip of \<open>line_feature\<close> in the Poisson mode, and the feature with it.\<close>

definition line_tooltip :: string where
  "line_tooltip =
     ''id_segmen: 12<br>Jenis_pipa: PVC<br>'' @ [CHR 0xCE, CHR 0xBB] @ ''_hat: 0.1235<br>P(''
     @ [CHR 0xE2, CHR 0x89, CHR 0xA5] @ ''1): N/A<br>Risk: High''"

definition line_feature_injected :: json where
  "line_feature_injected =
     JObj [(''type'', JStr ''Feature''), (''geometry'', line_geometry),
           (''properties'', JObj (line_props @ [(''_tooltip'', JStr line_tooltip)]))]"

text \<open>A stand-in for the text Python gives a float, right on the float of the samples.\<close>

definition sample_repr :: "json \<Rightarrow> string" where
  "sample_repr v = (if v = JFloat (Fin 0.1235) then ''0.1235'' else ''...'')"

definition unknown_bucket_feature :: json where
  "unknown_bucket_feature =
     JObj [(''type'', JStr ''Feature''),
           (''properties'', JObj [(''risk_bucket_gbt'', JStr ''Extreme'')])]"


definition point_feature :: json where
  "point_feature =
     JObj [(''type'', JStr ''Feature''),
           (''geometry'', JObj
              [(''type'', JStr ''Point''),
               (''coordinates'', JArr [JFloat (Fin 200), JFloat (Fin 95)])]),
           (''properties'', JObj [(''Length'', JInt 40)])]"

definition no_geometry_feature :: json where
  "no_geometry_feature = JObj [(''type'', JStr ''Feature''), (''properties'', JObj [])]"

definition null_geometry_feature :: json where
  "null_geometry_feature =
     JObj [(''type'', JStr ''Feature''), (''geometry'', JNull), (''properties'', JObj [])]"

definition collection :: "json list \<Rightarrow> json" where
  "collection fs = JObj [(''type'', JStr ''FeatureCollection''), (''features'', JArr fs)]"



section \<open>Properties of get_bounds\<close>

lemma ebind_Inr [simp]: "ebind (Inr x) f = f x"
  by (simp add: ebind_def)

lemma ebind_Inl [simp]: "ebind (Inl e) f = Inl e"
  by (simp add: ebind_def)

lemma flatten_lines_arrs:
  "list_all is_arr ls \<Longrightarrow> flatten_lines ls = Inr (concat (map elems ls))"
proof (induction ls)
  case Nil
  then show ?case by simp
next
  case (Cons l ls)
  then show ?case by (cases l) simp_all
qed

lemma py_iter_arr: "is_arr c \<Longrightarrow> py_iter c = Inr (elems c)"
  by (cases c) simp_all

lemma feature_coords_wf:
  assumes "wf_feature f"
  shows "\<exists>c. feature_coords f = Inr c \<and> (case c of None \<Rightarrow> [] | Some ps \<Rightarrow> ps) = supported_points f"
proof -
  from assms obtain kvs where f: "f = JObj kvs"
    by (cases f) (simp_all add: wf_feature_def)
  show ?thesis
  proof (cases "map_of kvs ''geometry''")
    case None
    then show ?thesis
      by (simp add: f feature_coords_def supported_points_def)
  next
    case (Some geom)
    with assms f obtain g where g: "geom = JObj g" and wg: "wf_geometry g"
      by (cases geom) (simp_all add: wf_feature_def)
    show ?thesis
      using wg Some
      by (auto simp: f g feature_coords_def supported_points_def wf_geometry_def
            py_iter_arr flatten_lines_arrs
          split: option.splits if_splits)
  qed
qed

lemma scan_points_append:
  "scan_points (xs @ ys) st = ebind (scan_points xs st) (scan_points ys)"
proof (induction xs arbitrary: st)
  case Nil
  then show ?case by simp
next
  case (Cons x xs)
  then show ?case by (cases "update_bnds st x") simp_all
qed

lemma scan_features_wf:
  "\<forall>f \<in> set fs. wf_feature f \<Longrightarrow>
   scan_features fs st = scan_points (concat (map supported_points fs)) st"
proof (induction fs arbitrary: st)
  case Nil
  then show ?case by simp
next
  case (Cons f fs)
  then have "wf_feature f" by simp
  then obtain c where c: "feature_coords f = Inr c"
    and sp: "(case c of None \<Rightarrow> [] | Some ps \<Rightarrow> ps) = supported_points f"
    using feature_coords_wf by blast
  show ?case
  proof (cases c)
    case None
    with c sp Cons show ?thesis by simp
  next
    case (Some ps)
    with c sp Cons show ?thesis
      by (cases "scan_points ps st") (simp_all add: scan_points_append)
  qed
qed














lemma get_bounds_features:
  assumes "py_getitem gj ''features'' = Inr (JArr fs)"
  shows "get_bounds gj =
     ebind (scan_features fs init_bnds) (\<lambda>st. Inr (center_of st, bounds_of st))"
  using assms by (simp add: get_bounds_def)



lemma feature_coords_unsupported:
  "unsupported_feature f \<Longrightarrow> feature_coords f = Inr None"
proof -
  assume u: "unsupported_feature f"
  then obtain kvs where f: "f = JObj kvs"
    by (cases f) (simp_all add: unsupported_feature_def)
  show ?thesis
  proof (cases "map_of kvs ''geometry''")
    case None
    then show ?thesis by (simp add: f feature_coords_def)
  next
    case (Some geom)
    with u f obtain g where g: "geom = JObj g"
      and ty: "map_of g ''type'' \<noteq> Some (JStr ''LineString'')"
              "map_of g ''type'' \<noteq> Some (JStr ''MultiLineString'')"
      by (cases geom) (simp_all add: unsupported_feature_def)
    then show ?thesis
      using Some by (cases "map_of g ''type''") (simp_all add: f feature_coords_def)
  qed
qed

lemma scan_features_append_unsupported:
  "unsupported_feature f \<Longrightarrow> scan_features (fs @ [f]) st = scan_features fs st"
proof (induction fs arbitrary: st)
  case Nil
  then show ?case by (simp add: feature_coords_unsupported)
next
  case (Cons g fs)
  show ?case
  proof (cases "feature_coords g")
    case (Inl e)
    then show ?thesis by simp
  next
    case (Inr c)
    show ?thesis
    proof (cases c)
      case None
      with Inr Cons show ?thesis by simp
    next
      case (Some pts)
      with Inr Cons show ?thesis
        by (cases "scan_points pts st") simp_all
    qed
  qed
qed

lemma get_bounds_append_unsupported:
  assumes "unsupported_feature f"
  shows "get_bounds (collection (fs @ [f])) = get_bounds (collection fs)"
  using scan_features_append_unsupported [OF assms]
  by (simp add: get_bounds_def collection_def)



text \<open>
  C2, as the claim states it: with no point at all the center would hold infinities. It
  does not: the sum of \<^verbatim>\<open>inf\<close> and \<^verbatim>\<open>-inf\<close> is \<^verbatim>\<open>nan\<close>, so the center of the empty
  collection is (nan, nan); only the bounds hold infinities.
\<close>

theorem get_bounds_empty_center_nan:
  "get_bounds (collection []) = Inr ((NaN, NaN), ((PInf, PInf), (NInf, NInf)))
   \<and> NaN \<noteq> PInf \<and> NaN \<noteq> NInf"
  by (simp add: collection_def get_bounds_def init_bnds_def center_of_def bounds_of_def)

text \<open>
  C2, amended. For a collection of structured features in which no feature contributes a
  point, the running minima and maxima stay at \<^verbatim>\<open>inf\<close> and \<^verbatim>\<open>-inf\<close>: the bounds returned
  are ((inf, inf), (-inf, -inf)) and the center returned is (nan, nan).
\<close>

theorem get_bounds_no_points:
  assumes "py_getitem gj ''features'' = Inr (JArr fs)"
    and "\<forall>f \<in> set fs. wf_feature f"
    and "concat (map supported_points fs) = []"
  shows "get_bounds gj = Inr ((NaN, NaN), ((PInf, PInf), (NInf, NInf)))"
proof -
  have "scan_features fs init_bnds = scan_points (concat (map supported_points fs)) init_bnds"
    using assms(2) by (rule scan_features_wf)
  then show ?thesis
    using assms(3)
    by (simp add: get_bounds_features [OF assms(1)] center_of_def bounds_of_def init_bnds_def)
qed

theorem get_bounds_no_points_witness:
  "py_getitem (collection [point_feature]) ''features'' = Inr (JArr [point_feature])
   \<and> list_all wf_feature [point_feature]
   \<and> concat (map supported_points [point_feature]) = []
   \<and> get_bounds (collection [point_feature])
       = Inr ((NaN, NaN), ((PInf, PInf), (NInf, NInf)))"
proof -
  have h1: "py_getitem (collection [point_feature]) ''features'' = Inr (JArr [point_feature])"
    by (simp add: collection_def)
  have h2: "\<forall>f \<in> set [point_feature]. wf_feature f"
    by (simp add: point_feature_def wf_feature_def wf_geometry_def)
  have h3: "concat (map supported_points [point_feature]) = []"
    by (simp add: point_feature_def supported_points_def)
  from get_bounds_no_points [OF h1 h2 h3] h1 h2 h3 show ?thesis
    by (simp add: list_all_iff)
qed

text \<open>
  C7. A feature without a geometry member is passed over, and so is one whose geometry is an
  object of another type: appended to a collection, they leave the result as it was. A
  feature whose geometry member is \<^verbatim>\<open>null\<close> is not: \<^verbatim>\<open>feat.get("geometry", {})\<close> gives
  \<^verbatim>\<open>None\<close> for it and \<^verbatim>\<open>geom.get("type")\<close> raises, so that appending it to a collection for
  which \<^verbatim>\<open>get_bounds\<close> returns bounds makes the call raise AttributeError.
\<close>

theorem get_bounds_null_geometry_raises:
  "get_bounds (collection [line_feature])
     = Inr ((Fin (- 6.1), Fin 106.9), ((Fin (- 6.2), Fin 106.8), (Fin (- 6), Fin 107)))
   \<and> get_bounds (collection ([line_feature] @ [no_geometry_feature]))
     = get_bounds (collection [line_feature])
   \<and> get_bounds (collection ([line_feature] @ [point_feature]))
     = get_bounds (collection [line_feature])
   \<and> get_bounds (collection ([line_feature] @ [null_geometry_feature])) = Inl AttributeError"
  by (simp add: collection_def line_feature_def line_geometry_def null_geometry_feature_def
        no_geometry_feature_def point_feature_def get_bounds_def feature_coords_def
        update_bnds_def unpack2_def py_min_def py_max_def init_bnds_def center_of_def
        bounds_of_def)




section \<open>Properties of build_map\<close>

declare nat_str.simps [simp del]

lemma base_lines_obj:
  "base_lines repr (JObj ps) ks = Inr (concat (map (attr_line repr ps) ks))"
  by (induction ks) (auto simp: attr_line_def split: option.splits)

lemma shown_round_or_raw:
  "py_str repr (round_or_raw (case field of None \<Rightarrow> JNull | Some v \<Rightarrow> v)) = shown repr field"
proof (cases field)
  case None
  then show ?thesis by (simp add: round_or_raw_def shown_def)
next
  case (Some v)
  then show ?thesis
    by (cases "py_float v"; cases v) (simp_all add: round_or_raw_def shown_def)
qed

lemma tooltip_lines_obj:
  "tooltip_lines repr flds (JObj ps) = Inr
     (concat (map (attr_line repr ps) show_keys) @
      [lam_label @ shown repr (map_of ps (lam_field flds)),
       p_label @ shown repr (map_of ps (p_field flds)),
       risk_label @ (case map_of ps (bucket_field flds) of
                       None \<Rightarrow> ''-'' | Some v \<Rightarrow> py_str repr v)])"
proof -
  have lam: "py_get (JObj ps) (lam_field flds) JNull
      = Inr (case map_of ps (lam_field flds) of None \<Rightarrow> JNull | Some v \<Rightarrow> v)"
    by (simp split: option.splits)
  have p1: "py_get (JObj ps) (p_field flds) JNull
      = Inr (case map_of ps (p_field flds) of None \<Rightarrow> JNull | Some v \<Rightarrow> v)"
    by (simp split: option.splits)
  have b: "py_get (JObj ps) (bucket_field flds) (JStr ''-'')
      = Inr (case map_of ps (bucket_field flds) of None \<Rightarrow> JStr ''-'' | Some v \<Rightarrow> v)"
    by (simp split: option.splits)
  have r: "py_str repr (case map_of ps (bucket_field flds) of None \<Rightarrow> JStr ''-'' | Some v \<Rightarrow> v)
      = (case map_of ps (bucket_field flds) of None \<Rightarrow> ''-'' | Some v \<Rightarrow> py_str repr v)"
    by (simp split: option.splits)
  show ?thesis
    unfolding tooltip_lines_def base_lines_obj lam p1 b
    by (simp add: shown_round_or_raw r)
qed

lemma round_half_even_between:
  assumes "of_int n - 1 / 2 < x" and "x < of_int n + 1 / 2"
  shows "round_half_even x = n"
proof (cases "x < of_int n")
  case True
  with assms have "\<lfloor>x\<rfloor> = n - 1" by (intro floor_unique) simp_all
  with assms True show ?thesis by (simp add: round_half_even_def Let_def)
next
  case False
  with assms have "\<lfloor>x\<rfloor> = n" by (intro floor_unique) simp_all
  with assms False show ?thesis by (simp add: round_half_even_def Let_def)
qed

lemma round4_near_1235:
  assumes "0.12345 < q" and "q < 0.12355"
  shows "py_round4 (Fin q) = Fin 0.1235"
proof -
  have "round_half_even (q * 10000) = 1235"
    using assms by (intro round_half_even_between) simp_all
  then show ?thesis by simp
qed

lemma float_of_str_NA: "float_of_str ''N/A'' = None"
  by (simp add: float_of_str_def parse_literal_def split_sign_def is_space_def is_digit_def lower_def)

lemma map_of_dict_set:
  "map_of (dict_set k v kvs) k' = (if k' = k then Some v else map_of kvs k')"
  by (induction kvs) auto



lemma dict_set_idem: "dict_set k v (dict_set k v kvs) = dict_set k v kvs"
  by (induction kvs) auto

lemma dict_set_same: "map_of kvs k = Some v \<Longrightarrow> dict_set k v kvs = kvs"
  by (induction kvs) (auto split: if_splits)


lemma tooltip_html_obj:
  "\<exists>t. tooltip_html repr flds (JObj ps) = Inr t"
  by (simp add: tooltip_html_def tooltip_lines_obj)

lemma attr_line_cong:
  "map_of ps' k = map_of ps k \<Longrightarrow> attr_line repr ps' k = attr_line repr ps k"
  by (simp add: attr_line_def)

lemma tooltip_html_tooltip_key:
  "tooltip_html repr (mode_fields mode) (JObj (dict_set ''_tooltip'' v ps))
   = tooltip_html repr (mode_fields mode) (JObj ps)"
  by (simp add: tooltip_html_def tooltip_lines_obj show_keys_def attr_line_def
        map_of_dict_set mode_fields_def)

lemma inject_tooltip_cases:
  assumes "inject_tooltip repr flds feat = Inr feat'"
  obtains kvs ps t where "feat = JObj kvs" and "properties_of feat = Some ps"
    and "tooltip_html repr flds (JObj ps) = Inr t"
    and "feat' = JObj (dict_set ''properties'' (JObj (dict_set ''_tooltip'' (JStr t) ps))
                  (if map_of kvs ''properties'' = None then kvs @ [(''properties'', JObj [])]
                   else kvs))"
proof -
  from assms obtain kvs where feat: "feat = JObj kvs"
    by (cases feat) (simp_all add: inject_tooltip_def)
  show ?thesis
  proof (cases "map_of kvs ''properties''")
    case None
    obtain t where t: "tooltip_html repr flds (JObj []) = Inr t"
      using tooltip_html_obj by blast
    with assms None feat
    have "feat' = JObj (dict_set ''properties'' (JObj (dict_set ''_tooltip'' (JStr t) []))
                  (kvs @ [(''properties'', JObj [])]))"
      by (simp add: inject_tooltip_def)
    with None feat t show ?thesis
      by (intro that [of kvs "[]" t]) (simp_all add: properties_of_def)
  next
    case (Some pv)
    show ?thesis
    proof (cases pv)
      case (JObj ps)
      obtain t where t: "tooltip_html repr flds (JObj ps) = Inr t"
        using tooltip_html_obj by blast
      with assms Some JObj feat
      have "feat' = JObj (dict_set ''properties'' (JObj (dict_set ''_tooltip'' (JStr t) ps)) kvs)"
        by (simp add: inject_tooltip_def)
      with Some JObj feat t show ?thesis
        by (intro that [of kvs ps t]) (simp_all add: properties_of_def)
    qed (use assms Some feat in
      \<open>auto simp: inject_tooltip_def ebind_def split: sum.splits\<close>)
  qed
qed







lemma nat_str_12: "nat_str 12 = ''12''"
  by code_simp

lemma line_tooltip_lines:
  "tooltip_lines sample_repr (mode_fields ''Poisson Regression'') (JObj line_props) = Inr
     [''id_segmen: 12'', ''Jenis_pipa: PVC'', [CHR 0xCE, CHR 0xBB] @ ''_hat: 0.1235'',
      ''P('' @ [CHR 0xE2, CHR 0x89, CHR 0xA5] @ ''1): N/A'', ''Risk: High'']"
proof -
  have r: "py_round4 (Fin 0.123456789) = Fin 0.1235"
    by (rule round4_near_1235) simp_all
  have "shown sample_repr (Some (JFloat (Fin 0.123456789))) = ''0.1235''"
    unfolding shown_def using r by (simp add: sample_repr_def del: py_round4.simps)
  moreover have "shown sample_repr (Some (JStr ''N/A'')) = ''N/A''"
    by (simp add: shown_def float_of_str_NA)
  ultimately show ?thesis
    by (simp add: tooltip_lines_obj show_keys_def attr_line_def line_props_def mode_fields_def
          lam_label_def p_label_def risk_label_def int_str_def nat_str_12)
qed

lemma line_tooltip_html:
  "tooltip_html sample_repr (mode_fields ''Poisson Regression'') (JObj line_props)
   = Inr line_tooltip"
  by (simp add: tooltip_html_def line_tooltip_lines line_tooltip_def)

lemma inject_line_feature:
  "inject_tooltip sample_repr (mode_fields ''Poisson Regression'') line_feature
   = Inr line_feature_injected"
proof -
  have "py_setdefault line_feature ''properties'' (JObj []) = Inr (line_feature, JObj line_props)"
    by (simp add: line_feature_def)
  then show ?thesis
    by (simp add: inject_tooltip_def line_tooltip_html)
       (simp add: line_feature_def line_feature_injected_def line_props_def)
qed




text \<open>
  C3. For a feature whose properties are a mapping (or absent), the category is the value of
  the mode's risk-bucket field, or \<^verbatim>\<open>Moderate\<close> when the field is absent; for a category
  that is a name, the color of the style is the palette's hex value for each of the six
  names, and \<^verbatim>\<open>#3186cc\<close> for every other name.
\<close>

theorem style_fn_color:
  assumes "properties_of feat = Some ps"
    and "(case map_of ps (bucket_field (mode_fields mode)) of
            None \<Rightarrow> JStr ''Moderate'' | Some v \<Rightarrow> v) = JStr name"
  shows "style_fn (mode_fields mode) feat = Inr
     \<lparr>color =
        (if name = ''Very Low'' then ''#7fc97f''
         else if name = ''Low'' then ''#beed90''
         else if name = ''Moderate'' then ''#ffff99''
         else if name = ''Moderately High'' then ''#fdc86e''
         else if name = ''High'' then ''#fdae61''
         else if name = ''Very High'' then ''#d7191c''
         else ''#3186cc''),
      weight = 3, opacity = 9 / 10\<rparr>"
proof -
  from assms(1) obtain kvs where feat: "feat = JObj kvs"
    by (cases feat) (simp_all add: properties_of_def)
  have props: "py_get feat ''properties'' (JObj []) = Inr (JObj ps)"
    using assms(1)
    by (auto simp: feat properties_of_def split: option.splits json.splits)
  have bucket: "py_get (JObj ps) (bucket_field (mode_fields mode)) (JStr ''Moderate'')
      = Inr (JStr name)"
    using assms(2) by (simp split: option.splits)
  have "palette_get (JStr name) ''#3186cc'' = Inr
     (if name = ''Very Low'' then ''#7fc97f''
      else if name = ''Low'' then ''#beed90''
      else if name = ''Moderate'' then ''#ffff99''
      else if name = ''Moderately High'' then ''#fdc86e''
      else if name = ''High'' then ''#fdae61''
      else if name = ''Very High'' then ''#d7191c''
      else ''#3186cc'')"
    by (simp add: PALETTE_def)
  with props bucket show ?thesis
    by (simp add: style_fn_def)
qed

theorem style_fn_color_witness:
  "properties_of line_feature = Some line_props
   \<and> (case map_of line_props (bucket_field (mode_fields ''Poisson Regression'')) of
         None \<Rightarrow> JStr ''Moderate'' | Some v \<Rightarrow> v) = JStr ''High''
   \<and> style_fn (mode_fields ''Poisson Regression'') line_feature
       = Inr \<lparr>color = ''#fdae61'', weight = 3, opacity = 9 / 10\<rparr>
   \<and> properties_of line_feature = Some line_props
   \<and> (case map_of line_props (bucket_field (mode_fields ''GBT'')) of
         None \<Rightarrow> JStr ''Moderate'' | Some v \<Rightarrow> v) = JStr ''Moderate''
   \<and> style_fn (mode_fields ''GBT'') line_feature
       = Inr \<lparr>color = ''#ffff99'', weight = 3, opacity = 9 / 10\<rparr>
   \<and> properties_of unknown_bucket_feature = Some [(''risk_bucket_gbt'', JStr ''Extreme'')]
   \<and> style_fn (mode_fields ''GBT'') unknown_bucket_feature
       = Inr \<lparr>color = ''#3186cc'', weight = 3, opacity = 9 / 10\<rparr>"
proof -
  have p1: "properties_of line_feature = Some line_props"
    by (simp add: properties_of_def line_feature_def)
  have b1: "(case map_of line_props (bucket_field (mode_fields ''Poisson Regression'')) of
         None \<Rightarrow> JStr ''Moderate'' | Some v \<Rightarrow> v) = JStr ''High''"
    by (simp add: line_props_def mode_fields_def)
  have b2: "(case map_of line_props (bucket_field (mode_fields ''GBT'')) of
         None \<Rightarrow> JStr ''Moderate'' | Some v \<Rightarrow> v) = JStr ''Moderate''"
    by (simp add: line_props_def mode_fields_def)
  have p3: "properties_of unknown_bucket_feature = Some [(''risk_bucket_gbt'', JStr ''Extreme'')]"
    by (simp add: properties_of_def unknown_bucket_feature_def)
  have b3: "(case map_of [(''risk_bucket_gbt'', JStr ''Extreme'')]
                (bucket_field (mode_fields ''GBT'')) of
         None \<Rightarrow> JStr ''Moderate'' | Some v \<Rightarrow> v) = JStr ''Extreme''"
    by (simp add: mode_fields_def)
  from style_fn_color [OF p1 b1] style_fn_color [OF p1 b2] style_fn_color [OF p3 b3]
    p1 b1 b2 p3
  show ?thesis by simp
qed

text \<open>
  C4. The mode \<^verbatim>\<open>Poisson Regression\<close> resolves to the fields \<^verbatim>\<open>risk_bucket\<close>, \<^verbatim>\<open>p_ge1\<close>,
  \<^verbatim>\<open>lambda_hat\<close>; the mode \<^verbatim>\<open>Gradient Boosted Trees (GBT)\<close>, and every mode other than
  \<^verbatim>\<open>Poisson Regression\<close>, resolves to \<^verbatim>\<open>risk_bucket_gbt\<close>, \<^verbatim>\<open>p_ge1_gbt\<close>,
  \<^verbatim>\<open>lambda_hat_gbt\<close>.
\<close>

theorem mode_fields_resolution:
  "mode_fields ''Poisson Regression'' =
     \<lparr>bucket_field = ''risk_bucket'', p_field = ''p_ge1'', lam_field = ''lambda_hat'',
      layer_name = ''Risk (Poisson)''\<rparr>
   \<and> mode_fields ''Gradient Boosted Trees (GBT)'' =
     \<lparr>bucket_field = ''risk_bucket_gbt'', p_field = ''p_ge1_gbt'',
      lam_field = ''lambda_hat_gbt'', layer_name = ''Risk (GBT)''\<rparr>
   \<and> (mode \<noteq> ''Poisson Regression'' \<longrightarrow>
        mode_fields mode = mode_fields ''Gradient Boosted Trees (GBT)'')"
  by (simp add: mode_fields_def)

theorem mode_fields_resolution_witness:
  "''XGBoost'' \<noteq> ''Poisson Regression''
   \<and> mode_fields ''XGBoost'' = mode_fields ''Gradient Boosted Trees (GBT)''
   \<and> bucket_field (mode_fields ''XGBoost'') = ''risk_bucket_gbt''
   \<and> p_field (mode_fields ''XGBoost'') = ''p_ge1_gbt''
   \<and> lam_field (mode_fields ''XGBoost'') = ''lambda_hat_gbt''"
  using mode_fields_resolution [of "''XGBoost''"] by simp




text \<open>
  C8. The tooltip step is idempotent: when it succeeds on a feature, applying it to the
  result succeeds and changes nothing; the \<^verbatim>\<open>_tooltip\<close> stored is the tooltip of the
  properties the feature had before the first step.
\<close>

theorem inject_tooltip_idempotent:
  assumes "inject_tooltip repr (mode_fields mode) feat = Inr feat1"
  shows "inject_tooltip repr (mode_fields mode) feat1 = Inr feat1
         \<and> (\<exists>ps t. properties_of feat = Some ps
                \<and> tooltip_html repr (mode_fields mode) (JObj ps) = Inr t
                \<and> tooltip_of feat1 = Some (JStr t))"
proof -
  from assms obtain kvs ps t where feat: "feat = JObj kvs"
    and ps: "properties_of feat = Some ps"
    and t: "tooltip_html repr (mode_fields mode) (JObj ps) = Inr t"
    and feat1: "feat1 = JObj (dict_set ''properties''
                  (JObj (dict_set ''_tooltip'' (JStr t) ps))
                  (if map_of kvs ''properties'' = None then kvs @ [(''properties'', JObj [])]
                   else kvs))"
    by (rule inject_tooltip_cases)
  define kvs1 where "kvs1 = dict_set ''properties''
                  (JObj (dict_set ''_tooltip'' (JStr t) ps))
                  (if map_of kvs ''properties'' = None then kvs @ [(''properties'', JObj [])]
                   else kvs)"
  have f1: "feat1 = JObj kvs1" by (simp add: feat1 kvs1_def)
  have look: "map_of kvs1 ''properties'' = Some (JObj (dict_set ''_tooltip'' (JStr t) ps))"
    by (simp add: kvs1_def map_of_dict_set)
  have t2: "tooltip_html repr (mode_fields mode) (JObj (dict_set ''_tooltip'' (JStr t) ps)) = Inr t"
    by (simp add: tooltip_html_tooltip_key t)
  have "inject_tooltip repr (mode_fields mode) feat1
      = Inr (JObj (dict_set ''properties'' (JObj (dict_set ''_tooltip'' (JStr t) ps)) kvs1))"
    by (simp add: f1 inject_tooltip_def look t2 dict_set_idem)
  also have "dict_set ''properties'' (JObj (dict_set ''_tooltip'' (JStr t) ps)) kvs1 = kvs1"
    using look by (rule dict_set_same)
  finally have again: "inject_tooltip repr (mode_fields mode) feat1 = Inr feat1"
    by (simp add: f1)
  have "tooltip_of feat1 = Some (JStr t)"
    by (simp add: tooltip_of_def f1 look map_of_dict_set)
  with again ps t show ?thesis by blast
qed

theorem inject_tooltip_idempotent_witness:
  "inject_tooltip sample_repr (mode_fields ''Poisson Regression'') line_feature
     = Inr line_feature_injected
   \<and> inject_tooltip sample_repr (mode_fields ''Poisson Regression'') line_feature_injected
     = Inr line_feature_injected
   \<and> tooltip_of line_feature_injected = Some (JStr line_tooltip)"
proof -
  have "tooltip_of line_feature_injected = Some (JStr line_tooltip)"
    by (simp add: tooltip_of_def line_feature_injected_def line_props_def)
  with inject_tooltip_idempotent [OF inject_line_feature] inject_line_feature
  show ?thesis by simp
qed



end
